theory Spec2Isabelle
  imports Main
begin

section \<open>Data model of the flow-run service\<close>

text \<open>
  Identifiers (\<open>FlowRunId\<close>, \<open>FlowVersionId\<close>, \<open>ProjectId\<close>, \<open>FileId\<close>, ...) are
  strings in the source. A timestamp is the instant read by \<open>new Date()\<close>; the source
  stores its \<open>toISOString()\<close> rendering, which orders as the instant does, and the model
  keeps the instant (milliseconds) itself.
\<close>

type_synonym timestamp = nat

text \<open>
  Modelled from the spec: the enum \<open>ExecutionOutputStatus\<close> is declared in the shared
  package, which is not among the source files. The source names its members \<open>RUNNING\<close>
  and \<open>PAUSED\<close>; the terminal members follow the spec's list (succeeded, failed,
  stopped, internal error).
\<close>

datatype ExecutionOutputStatus =
  RUNNING | PAUSED | SUCCEEDED | FAILED | STOPPED | INTERNAL_ERROR

text \<open>
  A run as the service and the widget read and write it. Fields that the source leaves
  unset or compares with \<open>null\<close> are options. \<open>created\<close> is the column the listing is
  paginated by; \<open>state\<close> is the execution state the widget merges into a fetched run.
\<close>

record FlowRun =
  flowRunId :: string
  created :: timestamp
  instanceId :: "string option"
  projectId :: string
  collectionId :: string
  flowId :: string
  flowVersionId :: string
  collectionVersionId :: string
  flowDisplayName :: string
  collectionDisplayName :: string
  status :: ExecutionOutputStatus
  startTime :: "timestamp option"
  finishTime :: "timestamp option"
  logsFileId :: "string option"
  state :: "string option"

text \<open>The fields of the resolved records that \<open>start\<close> reads.\<close>

record FlowVersion =
  fv_id :: string
  fv_flowId :: string
  fv_displayName :: string

record CollectionVersion =
  cv_id :: string
  cv_collectionId :: string
  cv_displayName :: string

record Collection =
  c_id :: string
  c_projectId :: string

datatype ErrorCode =
  FLOW_VERSION_NOT_FOUND | COLLECTION_VERSION_NOT_FOUND | COLLECTION_NOT_FOUND

text \<open>
  What an \<open>await\<close> inside \<open>start\<close> or \<open>finish\<close> can throw: an \<open>ActivepiecesError\<close>
  with its code and the \<open>id\<close> parameter, whatever the awaited side effect rejects with,
  or the error of the ORM, with its message.
\<close>

datatype failure =
  ActivepiecesError ErrorCode string
| SideEffectRejected string
| TypeORMError string

section \<open>The repository\<close>

text \<open>
  The \<open>flow_run\<close> table is the list of its rows. \<open>findOneBy\<close> returns the first row
  with the given id or \<open>null\<close>.
\<close>

definition repo_findOneBy :: "string \<Rightarrow> FlowRun list \<Rightarrow> FlowRun option" where
  "repo_findOneBy i rows = find (\<lambda>r. flowRunId r = i) rows"

text \<open>Rewriting every row that has the given id; no row is touched when there is none.\<close>

definition update_rows :: "string \<Rightarrow> (FlowRun \<Rightarrow> FlowRun) \<Rightarrow> FlowRun list \<Rightarrow> FlowRun list" where
  "update_rows i f rows = map (\<lambda>r. if flowRunId r = i then f r else r) rows"

text \<open>
  \<open>update\<close> with an id as criteria: the ORM rejects the empty string as empty criteria
  and writes nothing; any other id rewrites the rows that have it and is silent when
  there is none.
\<close>

definition repo_update ::
  "string \<Rightarrow> (FlowRun \<Rightarrow> FlowRun) \<Rightarrow> FlowRun list \<Rightarrow> failure + FlowRun list" where
  "repo_update i f rows =
     (if i = []
      then Inl (TypeORMError ''Empty criteria(s) are not allowed for the update method.'')
      else Inr (update_rows i f rows))"

text \<open>
  Modelled from the spec: the entity declaration is not among the source files. \<open>save\<close>
  writes the row and returns it with the column the store assigns, the creation time
  (section 4.1, create: the persisted run, including any store-assigned defaults); a
  row with the same id is replaced and keeps its creation time.
\<close>

definition repo_save :: "timestamp \<Rightarrow> FlowRun \<Rightarrow> FlowRun list \<Rightarrow> FlowRun \<times> FlowRun list" where
  "repo_save stamp r rows =
     (case repo_findOneBy (flowRunId r) rows of
        None \<Rightarrow> (r\<lparr>created := stamp\<rparr>, rows @ [r\<lparr>created := stamp\<rparr>])
      | Some old \<Rightarrow>
          (r\<lparr>created := created old\<rparr>,
           update_rows (flowRunId r) (\<lambda>_. r\<lparr>created := created old\<rparr>) rows))"

section \<open>start\<close>

text \<open>
  The collaborators of \<open>start\<close> are parameters: the three \<open>getOne\<close> lookups, the id
  generator \<open>apId()\<close>, the clock, the store's stamp for a new row, and the outcome of
  \<open>flowRunSideEffects.start\<close> (\<open>None\<close> when its promise resolves, the rejection
  otherwise).
\<close>

record env =
  flowVersionService_getOne :: "string \<Rightarrow> FlowVersion option"
  collectionVersionService_getOne :: "string \<Rightarrow> CollectionVersion option"
  collectionService_getOne :: "string \<Rightarrow> string option \<Rightarrow> Collection option"
  apId :: string
  now :: timestamp
  storeStamp :: timestamp
  flowRunSideEffects_start :: "FlowRun \<Rightarrow> string \<Rightarrow> string option"

record StartParams =
  sp_instanceId :: "string option"
  sp_flowVersionId :: string
  sp_collectionVersionId :: string
  sp_payload :: string

text \<open>
  The state \<open>start\<close> acts on: the table, and the calls that write or dispatch, in the
  order they were made.
\<close>

datatype call = RepoSave FlowRun | SideEffectsStart FlowRun string

record world =
  flow_run :: "FlowRun list"
  calls :: "call list"

definition getFlowVersionOrThrow :: "env \<Rightarrow> string \<Rightarrow> failure + FlowVersion" where
  "getFlowVersionOrThrow e i =
     (case flowVersionService_getOne e i of
        None \<Rightarrow> Inl (ActivepiecesError FLOW_VERSION_NOT_FOUND i)
      | Some flowVersion \<Rightarrow> Inr flowVersion)"

definition getCollectionVersionOrThrow :: "env \<Rightarrow> string \<Rightarrow> failure + CollectionVersion" where
  "getCollectionVersionOrThrow e i =
     (case collectionVersionService_getOne e i of
        None \<Rightarrow> Inl (ActivepiecesError COLLECTION_VERSION_NOT_FOUND i)
      | Some collectionVersion \<Rightarrow> Inr collectionVersion)"

definition getCollectionOrThrow :: "env \<Rightarrow> string \<Rightarrow> failure + Collection" where
  "getCollectionOrThrow e i =
     (case collectionService_getOne e i None of
        None \<Rightarrow> Inl (ActivepiecesError COLLECTION_NOT_FOUND i)
      | Some collection \<Rightarrow> Inr collection)"

text \<open>
  The object literal of \<open>start\<close>: the fields it sets, the others absent. \<open>created\<close> is
  not set here; the store assigns it on save.
\<close>

definition newFlowRun ::
  "env \<Rightarrow> StartParams \<Rightarrow> FlowVersion \<Rightarrow> CollectionVersion \<Rightarrow> Collection \<Rightarrow> FlowRun" where
  "newFlowRun e p flowVersion collectionVersion collection =
     \<lparr> flowRunId = apId e,
       created = 0,
       instanceId = sp_instanceId p,
       projectId = c_projectId collection,
       collectionId = cv_collectionId collectionVersion,
       flowId = fv_flowId flowVersion,
       flowVersionId = fv_id flowVersion,
       collectionVersionId = cv_id collectionVersion,
       flowDisplayName = fv_displayName flowVersion,
       collectionDisplayName = cv_displayName collectionVersion,
       status = RUNNING,
       startTime = Some (now e),
       finishTime = None,
       logsFileId = None,
       state = None \<rparr>"

text \<open>
  \<open>start\<close> returns what the promise settles with, and the state it leaves. A throw
  leaves the state as it was at the throw.
\<close>

definition start :: "env \<Rightarrow> StartParams \<Rightarrow> world \<Rightarrow> (failure + FlowRun) \<times> world" where
  "start e p w =
     (case getFlowVersionOrThrow e (sp_flowVersionId p) of
        Inl err \<Rightarrow> (Inl err, w)
      | Inr flowVersion \<Rightarrow>
     (case getCollectionVersionOrThrow e (sp_collectionVersionId p) of
        Inl err \<Rightarrow> (Inl err, w)
      | Inr collectionVersion \<Rightarrow>
     (case getCollectionOrThrow e (cv_collectionId collectionVersion) of
        Inl err \<Rightarrow> (Inl err, w)
      | Inr collection \<Rightarrow>
          (let flowRun = newFlowRun e p flowVersion collectionVersion collection;
               (savedFlowRun, rows) = repo_save (storeStamp e) flowRun (flow_run w);
               w1 = w\<lparr>flow_run := rows, calls := calls w @ [RepoSave savedFlowRun]\<rparr>;
               w2 = w1\<lparr>calls := calls w1 @ [SideEffectsStart savedFlowRun (sp_payload p)]\<rparr>
           in case flowRunSideEffects_start e savedFlowRun (sp_payload p) of
                Some rejection \<Rightarrow> (Inl (SideEffectRejected rejection), w2)
              | None \<Rightarrow> (Inr savedFlowRun, w2)))))"

section \<open>finish and getOne\<close>

definition getOne :: "string \<Rightarrow> FlowRun list \<Rightarrow> FlowRun option" where
  "getOne i rows = repo_findOneBy i rows"

text \<open>
  \<open>finish\<close> takes the clock's reading as \<open>t\<close>. It returns what the promise settles
  with, the row read back after the update or the update's error, and the table.
\<close>

definition finish ::
  "timestamp \<Rightarrow> string \<Rightarrow> ExecutionOutputStatus \<Rightarrow> string \<Rightarrow> FlowRun list
     \<Rightarrow> (failure + FlowRun option) \<times> FlowRun list" where
  "finish t i st lf rows =
     (case repo_update i
             (\<lambda>r. r\<lparr>logsFileId := Some lf, status := st, finishTime := Some t\<rparr>) rows of
        Inl err \<Rightarrow> (Inl err, rows)
      | Inr rows' \<Rightarrow> (Inr (getOne i rows'), rows'))"

section \<open>list\<close>









section \<open>The run status checker of the test-flow widget\<close>

text \<open>
  \<open>setStatusChecker\<close> builds a pipeline of stream operators; what it does depends on the
  order in which the timer, the exit button and the two HTTP requests deliver. The
  model is the pipeline's transition function over these deliveries.
\<close>

datatype poll_event =
  IntervalTick
| ExitButtonClicked
| GetResponded FlowRun
| GetFailed
| LogsLoaded string
| LogsFailed

text \<open>What the pipeline does to the outside, in order.\<close>

datatype poll_action =
  InstanceRunGet string
| LoadStateLogs string
| SetRun FlowRun
| Emitted FlowRun

text \<open>
  \<open>ticking\<close>: the timer is subscribed (\<open>takeUntil\<close> has not completed it).
  \<open>getPending\<close>: the inner request of the first \<open>switchMap\<close> is in flight.
  \<open>logsPending\<close>: the inner log request of the second \<open>switchMap\<close> is in flight, for
  this run.
\<close>

record checker =
  ticking :: bool
  getPending :: bool
  logsPending :: "FlowRun option"

definition subscribed :: checker where
  "subscribed = \<lparr> ticking = True, getPending = False, logsPending = None \<rparr>"

definition unsubscribed :: checker where
  "unsubscribed = \<lparr> ticking = False, getPending = False, logsPending = None \<rparr>"

text \<open>
  A value leaving the second \<open>switchMap\<close> goes through \<open>tap\<close>, then \<open>takeWhile\<close>, which
  either passes it on or completes and unsubscribes everything upstream.
\<close>

definition tap_takeWhile :: "checker \<Rightarrow> FlowRun \<Rightarrow> checker \<times> poll_action list" where
  "tap_takeWhile s instanceRun =
     (let dispatched = (if status instanceRun \<noteq> RUNNING then [SetRun instanceRun] else [])
      in if status instanceRun = RUNNING \<or> status instanceRun = PAUSED
         then (s, dispatched @ [Emitted instanceRun])
         else (unsubscribed, dispatched))"

text \<open>
  A tick that passes \<open>takeUntil\<close> makes the first \<open>switchMap\<close> drop its request in flight
  and issue a new one. A response makes the second \<open>switchMap\<close> drop its log request in
  flight and either request the logs or pass the run on at once. A failed request errors
  the pipeline. A delivery for a request that is not in flight does not occur and is
  ignored.
\<close>

fun checker_step :: "string \<Rightarrow> checker \<Rightarrow> poll_event \<Rightarrow> checker \<times> poll_action list" where
  "checker_step runId s IntervalTick =
     (if ticking s then (s\<lparr>getPending := True\<rparr>, [InstanceRunGet runId]) else (s, []))"
| "checker_step runId s ExitButtonClicked = (s\<lparr>ticking := False\<rparr>, [])"
| "checker_step runId s (GetResponded instanceRun) =
     (if getPending s
      then (if status instanceRun \<noteq> RUNNING \<and> logsFileId instanceRun \<noteq> None
            then (s\<lparr>getPending := False, logsPending := Some instanceRun\<rparr>,
                  [LoadStateLogs (the (logsFileId instanceRun))])
            else tap_takeWhile (s\<lparr>getPending := False, logsPending := None\<rparr>) instanceRun)
      else (s, []))"
| "checker_step runId s GetFailed = (if getPending s then (unsubscribed, []) else (s, []))"
| "checker_step runId s (LogsLoaded st) =
     (case logsPending s of
        Some instanceRun \<Rightarrow>
          tap_takeWhile (s\<lparr>logsPending := None\<rparr>) (instanceRun\<lparr>state := Some st\<rparr>)
      | None \<Rightarrow> (s, []))"
| "checker_step runId s LogsFailed =
     (case logsPending s of Some _ \<Rightarrow> (unsubscribed, []) | None \<Rightarrow> (s, []))"

fun checker_run :: "string \<Rightarrow> checker \<Rightarrow> poll_event list \<Rightarrow> checker \<times> poll_action list" where
  "checker_run runId s [] = (s, [])"
| "checker_run runId s (ev # evs) =
     (let (s1, acts) = checker_step runId s ev;
          (s2, acts') = checker_run runId s1 evs
      in (s2, acts @ acts'))"

definition setStatusChecker :: "string \<Rightarrow> poll_event list \<Rightarrow> poll_action list" where
  "setStatusChecker runId evs = snd (checker_run runId subscribed evs)"

text \<open>Terminal statuses: all but \<open>RUNNING\<close> and \<open>PAUSED\<close>.\<close>

definition terminal :: "ExecutionOutputStatus \<Rightarrow> bool" where
  "terminal st = (st \<noteq> RUNNING \<and> st \<noteq> PAUSED)"

section \<open>The scenarios of the specification\<close>

text \<open>
  The end-to-end scenarios of section 8: \<open>fv1\<close>, \<open>cv1\<close> and \<open>c1\<close> resolve; \<open>cv2\<close>
  resolves to a collection id that does not.
\<close>

definition scenario_flowVersion :: FlowVersion where
  "scenario_flowVersion = \<lparr> fv_id = ''fv1'', fv_flowId = ''f1'', fv_displayName = ''My Flow'' \<rparr>"

definition scenario_collectionVersion :: CollectionVersion where
  "scenario_collectionVersion =
     \<lparr> cv_id = ''cv1'', cv_collectionId = ''c1'', cv_displayName = ''My Collection'' \<rparr>"

definition scenario_orphanVersion :: CollectionVersion where
  "scenario_orphanVersion =
     \<lparr> cv_id = ''cv2'', cv_collectionId = ''c2'', cv_displayName = ''Orphan'' \<rparr>"

definition scenario_collection :: Collection where
  "scenario_collection = \<lparr> c_id = ''c1'', c_projectId = ''p1'' \<rparr>"

definition scenario_env :: env where
  "scenario_env =
     \<lparr> flowVersionService_getOne =
         (\<lambda>i. if i = ''fv1'' then Some scenario_flowVersion else None),
       collectionVersionService_getOne =
         (\<lambda>i. if i = ''cv1'' then Some scenario_collectionVersion
              else if i = ''cv2'' then Some scenario_orphanVersion else None),
       collectionService_getOne =
         (\<lambda>i _. if i = ''c1'' then Some scenario_collection else None),
       apId = ''run1'',
       now = 1000,
       storeStamp = 1001,
       flowRunSideEffects_start = (\<lambda>_ _. None) \<rparr>"

definition rejecting_env :: env where
  "rejecting_env =
     scenario_env\<lparr>flowRunSideEffects_start := (\<lambda>_ _. Some ''queue unavailable'')\<rparr>"

definition scenario_params :: "string \<Rightarrow> string \<Rightarrow> StartParams" where
  "scenario_params fvid cvid =
     \<lparr> sp_instanceId = None, sp_flowVersionId = fvid, sp_collectionVersionId = cvid,
       sp_payload = ''{}'' \<rparr>"

definition empty_world :: world where
  "empty_world = \<lparr> flow_run = [], calls = [] \<rparr>"

definition scenario_run :: FlowRun where
  "scenario_run =
     \<lparr> flowRunId = ''run1'', created = 1001, instanceId = None, projectId = ''p1'',
       collectionId = ''c1'', flowId = ''f1'', flowVersionId = ''fv1'',
       collectionVersionId = ''cv1'', flowDisplayName = ''My Flow'',
       collectionDisplayName = ''My Collection'', status = RUNNING,
       startTime = Some 1000, finishTime = None, logsFileId = None, state = None \<rparr>"

text \<open>Runs as the status checker may fetch them.\<close>

definition paused_run :: FlowRun where
  "paused_run = scenario_run\<lparr>status := PAUSED\<rparr>"

definition failed_run :: FlowRun where
  "failed_run = scenario_run\<lparr>status := FAILED, finishTime := Some 4000\<rparr>"

definition succeeded_run :: FlowRun where
  "succeeded_run =
     scenario_run\<lparr>status := SUCCEEDED, finishTime := Some 4000, logsFileId := Some ''L1''\<rparr>"






section \<open>Facts about the repository\<close>

lemma find_map_replace:
  "find (\<lambda>r. flowRunId r = i) rows = Some old \<Longrightarrow> flowRunId n = i \<Longrightarrow>
   find (\<lambda>r. flowRunId r = i) (map (\<lambda>r. if flowRunId r = i then n else r) rows) = Some n"
  by (induction rows) (auto split: if_splits)

lemma find_append_new:
  "find P rows = None \<Longrightarrow> P n \<Longrightarrow> find P (rows @ [n]) = Some n"
  by (induction rows) (auto split: if_splits)

lemma repo_save_found:
  "repo_findOneBy (flowRunId r) (snd (repo_save stamp r rows)) = Some (fst (repo_save stamp r rows))"
  by (auto simp: repo_save_def repo_findOneBy_def update_rows_def find_map_replace
      find_append_new split: option.splits)

lemma repo_save_fields:
  "\<exists>t. fst (repo_save stamp r rows) = r\<lparr>created := t\<rparr>"
  by (auto simp: repo_save_def split: option.splits)

lemma update_rows_found:
  "repo_findOneBy i rows = Some r \<Longrightarrow> flowRunId (f r) = i \<Longrightarrow>
   repo_findOneBy i (update_rows i f rows) = Some (f r)"
  unfolding repo_findOneBy_def update_rows_def
  by (induction rows) (auto split: if_splits)

lemma update_rows_missing:
  "repo_findOneBy i rows = None \<Longrightarrow> update_rows i f rows = rows"
  unfolding repo_findOneBy_def update_rows_def
  by (induction rows) (auto split: if_splits)

lemma update_rows_twice:
  "(\<And>r. flowRunId (f r) = flowRunId r) \<Longrightarrow>
   update_rows i g (update_rows i f rows) = update_rows i (\<lambda>r. g (f r)) rows"
  unfolding update_rows_def by (induction rows) auto

lemma finish_nonempty_id:
  "i \<noteq> [] \<Longrightarrow>
   finish t i st lf rows =
     (Inr (getOne i (update_rows i
             (\<lambda>r. r\<lparr>logsFileId := Some lf, status := st, finishTime := Some t\<rparr>) rows)),
      update_rows i (\<lambda>r. r\<lparr>logsFileId := Some lf, status := st, finishTime := Some t\<rparr>) rows)"
  by (simp add: finish_def repo_update_def)

lemma finish_empty_id:
  "finish t [] st lf rows =
     (Inl (TypeORMError ''Empty criteria(s) are not allowed for the update method.''), rows)"
  by (simp add: finish_def repo_update_def)

section \<open>Properties of start\<close>

text \<open>
  With the three lookups resolved, \<open>start\<close> is the save followed by the dispatch; its
  result is the saved run or the dispatch's rejection.
\<close>

lemma start_resolved:
  assumes "flowVersionService_getOne e (sp_flowVersionId p) = Some fv"
    and "collectionVersionService_getOne e (sp_collectionVersionId p) = Some cv"
    and "collectionService_getOne e (cv_collectionId cv) None = Some c"
  shows "start e p w =
     (let saved = fst (repo_save (storeStamp e) (newFlowRun e p fv cv c) (flow_run w));
          rows = snd (repo_save (storeStamp e) (newFlowRun e p fv cv c) (flow_run w));
          w2 = w\<lparr>flow_run := rows,
                 calls := calls w @ [RepoSave saved, SideEffectsStart saved (sp_payload p)]\<rparr>
      in (case flowRunSideEffects_start e saved (sp_payload p) of
            Some rejection \<Rightarrow> Inl (SideEffectRejected rejection)
          | None \<Rightarrow> Inr saved, w2))"
  using assms
  by (simp add: start_def getFlowVersionOrThrow_def getCollectionVersionOrThrow_def
      getCollectionOrThrow_def Let_def split_beta split: option.splits)

lemma scenario_resolves:
  "flowVersionService_getOne scenario_env (sp_flowVersionId (scenario_params ''fv1'' ''cv1''))
     = Some scenario_flowVersion"
  "collectionVersionService_getOne scenario_env
     (sp_collectionVersionId (scenario_params ''fv1'' ''cv1'')) = Some scenario_collectionVersion"
  "collectionService_getOne scenario_env (cv_collectionId scenario_collectionVersion) None
     = Some scenario_collection"
  by (simp_all add: scenario_env_def scenario_params_def scenario_collectionVersion_def)

lemma scenario_start:
  "start scenario_env (scenario_params ''fv1'' ''cv1'') empty_world =
     (Inr scenario_run,
      \<lparr> flow_run = [scenario_run],
        calls = [RepoSave scenario_run, SideEffectsStart scenario_run ''{}''] \<rparr>)"
  by (simp add: start_def getFlowVersionOrThrow_def getCollectionVersionOrThrow_def
      getCollectionOrThrow_def scenario_env_def scenario_params_def empty_world_def
      newFlowRun_def repo_save_def repo_findOneBy_def scenario_run_def
      scenario_flowVersion_def scenario_collectionVersion_def scenario_collection_def)

lemma rejecting_start:
  "start rejecting_env (scenario_params ''fv1'' ''cv1'') empty_world =
     (Inl (SideEffectRejected ''queue unavailable''),
      \<lparr> flow_run = [scenario_run],
        calls = [RepoSave scenario_run, SideEffectsStart scenario_run ''{}''] \<rparr>)"
  by (simp add: start_def getFlowVersionOrThrow_def getCollectionVersionOrThrow_def
      getCollectionOrThrow_def scenario_env_def scenario_params_def empty_world_def
      newFlowRun_def repo_save_def repo_findOneBy_def scenario_run_def rejecting_env_def
      scenario_flowVersion_def scenario_collectionVersion_def scenario_collection_def)

text \<open>
  Claim C1. When a lookup fails, \<open>start\<close> fails with the not-found error of the first
  failing step, carrying the id that was looked up (for the collection, the collection
  id of the resolved collection version), and leaves the state as it was: no row is
  written and no call that writes or dispatches is made.
\<close>

theorem start_lookup_failure:
  "(flowVersionService_getOne e (sp_flowVersionId p) = None \<longrightarrow>
      start e p w = (Inl (ActivepiecesError FLOW_VERSION_NOT_FOUND (sp_flowVersionId p)), w))
   \<and> (flowVersionService_getOne e (sp_flowVersionId p) \<noteq> None \<and>
      collectionVersionService_getOne e (sp_collectionVersionId p) = None \<longrightarrow>
      start e p w =
        (Inl (ActivepiecesError COLLECTION_VERSION_NOT_FOUND (sp_collectionVersionId p)), w))
   \<and> (\<forall>cv. flowVersionService_getOne e (sp_flowVersionId p) \<noteq> None \<and>
      collectionVersionService_getOne e (sp_collectionVersionId p) = Some cv \<and>
      collectionService_getOne e (cv_collectionId cv) None = None \<longrightarrow>
      start e p w = (Inl (ActivepiecesError COLLECTION_NOT_FOUND (cv_collectionId cv)), w))"
  by (auto simp: start_def getFlowVersionOrThrow_def getCollectionVersionOrThrow_def
      getCollectionOrThrow_def)

theorem start_lookup_failure_witness:
  "start scenario_env (scenario_params ''fv0'' ''cv1'') empty_world =
     (Inl (ActivepiecesError FLOW_VERSION_NOT_FOUND ''fv0''), empty_world)
   \<and> start scenario_env (scenario_params ''fv1'' ''cv0'') empty_world =
     (Inl (ActivepiecesError COLLECTION_VERSION_NOT_FOUND ''cv0''), empty_world)
   \<and> start scenario_env (scenario_params ''fv1'' ''cv2'') empty_world =
     (Inl (ActivepiecesError COLLECTION_NOT_FOUND ''c2''), empty_world)"
  using start_lookup_failure [of scenario_env "scenario_params ''fv0'' ''cv1''" empty_world]
    start_lookup_failure [of scenario_env "scenario_params ''fv1'' ''cv0''" empty_world]
    start_lookup_failure [of scenario_env "scenario_params ''fv1'' ''cv2''" empty_world]
  by (simp add: scenario_env_def scenario_params_def scenario_orphanVersion_def)

text \<open>
  Claim C2, as the code has it. With the three lookups resolved, the save precedes the
  dispatch, the saved run has status \<open>RUNNING\<close> and is in the table afterwards whatever
  the dispatch does, and the table does not depend on the dispatch. The dispatch is
  awaited: \<open>start\<close> returns the saved run when the dispatch resolves and fails with the
  rejection when it rejects.
\<close>

theorem start_persists_before_dispatch:
  assumes "flowVersionService_getOne e (sp_flowVersionId p) = Some fv"
    and "collectionVersionService_getOne e (sp_collectionVersionId p) = Some cv"
    and "collectionService_getOne e (cv_collectionId cv) None = Some c"
  shows "\<exists>saved.
      calls (snd (start e p w)) =
        calls w @ [RepoSave saved, SideEffectsStart saved (sp_payload p)]
    \<and> status saved = RUNNING
    \<and> getOne (flowRunId saved) (flow_run (snd (start e p w))) = Some saved
    \<and> (flowRunSideEffects_start e saved (sp_payload p) = None \<longrightarrow>
         fst (start e p w) = Inr saved)
    \<and> (\<forall>rejection. flowRunSideEffects_start e saved (sp_payload p) = Some rejection \<longrightarrow>
         fst (start e p w) = Inl (SideEffectRejected rejection))
    \<and> (\<forall>g. flow_run (snd (start (e\<lparr>flowRunSideEffects_start := g\<rparr>) p w)) =
            flow_run (snd (start e p w)))"
proof -
  define n where "n = newFlowRun e p fv cv c"
  define saved where "saved = fst (repo_save (storeStamp e) n (flow_run w))"
  define rows where "rows = snd (repo_save (storeStamp e) n (flow_run w))"
  obtain t where t: "saved = n\<lparr>created := t\<rparr>"
    unfolding saved_def using repo_save_fields by blast
  have id: "flowRunId saved = flowRunId n" by (simp add: t)
  have st: "status saved = RUNNING" by (simp add: t n_def newFlowRun_def)
  have "repo_findOneBy (flowRunId n) rows = Some saved"
    unfolding rows_def saved_def by (rule repo_save_found)
  then have found: "getOne (flowRunId saved) rows = Some saved"
    by (simp add: getOne_def id)
  have indep: "newFlowRun (e\<lparr>flowRunSideEffects_start := g\<rparr>) p fv cv c = n" for g
    by (simp add: newFlowRun_def n_def)
  have res: "flow_run (snd (start (e\<lparr>flowRunSideEffects_start := g\<rparr>) p w)) = rows" for g
    using assms
    by (subst start_resolved[of _ _ fv cv c]) (simp_all add: Let_def indep rows_def)
  have here: "start e p w =
      (case flowRunSideEffects_start e saved (sp_payload p) of
         Some rejection \<Rightarrow> Inl (SideEffectRejected rejection)
       | None \<Rightarrow> Inr saved,
       w\<lparr>flow_run := rows,
         calls := calls w @ [RepoSave saved, SideEffectsStart saved (sp_payload p)]\<rparr>)"
    unfolding saved_def rows_def n_def by (simp add: start_resolved[OF assms] Let_def)
  show ?thesis
  proof (intro exI[of _ saved] conjI allI impI)
    show "calls (snd (start e p w)) =
        calls w @ [RepoSave saved, SideEffectsStart saved (sp_payload p)]"
      by (simp add: here)
    show "status saved = RUNNING" by (rule st)
    show "getOne (flowRunId saved) (flow_run (snd (start e p w))) = Some saved"
      by (simp add: here found)
    show "fst (start e p w) = Inr saved"
      if "flowRunSideEffects_start e saved (sp_payload p) = None"
      using that by (simp add: here)
    show "fst (start e p w) = Inl (SideEffectRejected rejection)"
      if "flowRunSideEffects_start e saved (sp_payload p) = Some rejection" for rejection
      using that by (simp add: here)
    show "flow_run (snd (start (e\<lparr>flowRunSideEffects_start := g\<rparr>) p w)) =
            flow_run (snd (start e p w))" for g
      by (simp add: res here)
  qed
qed

theorem start_persists_before_dispatch_witness:
  "flowVersionService_getOne scenario_env ''fv1'' = Some scenario_flowVersion
   \<and> collectionVersionService_getOne scenario_env ''cv1'' = Some scenario_collectionVersion
   \<and> collectionService_getOne scenario_env ''c1'' None = Some scenario_collection
   \<and> calls (snd (start scenario_env (scenario_params ''fv1'' ''cv1'') empty_world)) =
       [RepoSave scenario_run, SideEffectsStart scenario_run ''{}'']
   \<and> status scenario_run = RUNNING
   \<and> getOne ''run1''
        (flow_run (snd (start scenario_env (scenario_params ''fv1'' ''cv1'') empty_world)))
       = Some scenario_run
   \<and> fst (start scenario_env (scenario_params ''fv1'' ''cv1'') empty_world) = Inr scenario_run
   \<and> flow_run (snd (start rejecting_env (scenario_params ''fv1'' ''cv1'') empty_world)) =
       flow_run (snd (start scenario_env (scenario_params ''fv1'' ''cv1'') empty_world))"
proof -
  have l: "flowVersionService_getOne scenario_env ''fv1'' = Some scenario_flowVersion
      \<and> collectionVersionService_getOne scenario_env ''cv1'' = Some scenario_collectionVersion
      \<and> collectionService_getOne scenario_env ''c1'' None = Some scenario_collection"
    by (simp add: scenario_env_def)
  have i: "flowRunId scenario_run = ''run1''" "status scenario_run = RUNNING"
    by (simp_all add: scenario_run_def)
  show ?thesis
    using l i start_persists_before_dispatch [OF scenario_resolves, of empty_world]
    by (simp add: scenario_start rejecting_start rejecting_env_def)
qed

text \<open>
  The claim as stated fails where the dispatch rejects: the run is saved, and \<open>start\<close>
  fails instead of returning it.
\<close>

theorem start_returns_despite_rejection_counterexample:
  "flowVersionService_getOne rejecting_env ''fv1'' = Some scenario_flowVersion
   \<and> collectionVersionService_getOne rejecting_env ''cv1'' = Some scenario_collectionVersion
   \<and> collectionService_getOne rejecting_env ''c1'' None = Some scenario_collection
   \<and> getOne ''run1''
        (flow_run (snd (start rejecting_env (scenario_params ''fv1'' ''cv1'') empty_world)))
       = Some scenario_run
   \<and> fst (start rejecting_env (scenario_params ''fv1'' ''cv1'') empty_world)
       = Inl (SideEffectRejected ''queue unavailable'')
   \<and> fst (start rejecting_env (scenario_params ''fv1'' ''cv1'') empty_world)
       \<noteq> Inr scenario_run"
  by (simp add: rejecting_start getOne_def repo_findOneBy_def)
    (simp add: rejecting_env_def scenario_env_def scenario_run_def)

text \<open>
  Claim C3. With the three lookups resolved, every run \<open>start\<close> returns has status
  \<open>RUNNING\<close>, the clock's reading as start time, no finish time, no logs file
  reference, the id that \<open>apId()\<close> generated for this call, and the reference and display
  fields of the resolved records; and \<open>start\<close> returns a run when the dispatch
  resolves.
\<close>

theorem start_returned_run:
  assumes "flowVersionService_getOne e (sp_flowVersionId p) = Some fv"
    and "collectionVersionService_getOne e (sp_collectionVersionId p) = Some cv"
    and "collectionService_getOne e (cv_collectionId cv) None = Some c"
  shows "(\<forall>r. fst (start e p w) = Inr r \<longrightarrow>
        status r = RUNNING \<and> startTime r = Some (now e) \<and> finishTime r = None
      \<and> logsFileId r = None \<and> flowRunId r = apId e
      \<and> projectId r = c_projectId c \<and> collectionId r = cv_collectionId cv
      \<and> flowId r = fv_flowId fv \<and> flowDisplayName r = fv_displayName fv
      \<and> collectionDisplayName r = cv_displayName cv)
    \<and> ((\<forall>r. flowRunSideEffects_start e r (sp_payload p) = None) \<longrightarrow>
         (\<exists>r. fst (start e p w) = Inr r))"
proof -
  define n where "n = newFlowRun e p fv cv c"
  define saved where "saved = fst (repo_save (storeStamp e) n (flow_run w))"
  obtain t where t: "saved = n\<lparr>created := t\<rparr>"
    unfolding saved_def using repo_save_fields by blast
  have fields: "status saved = RUNNING \<and> startTime saved = Some (now e) \<and> finishTime saved = None
      \<and> logsFileId saved = None \<and> flowRunId saved = apId e
      \<and> projectId saved = c_projectId c \<and> collectionId saved = cv_collectionId cv
      \<and> flowId saved = fv_flowId fv \<and> flowDisplayName saved = fv_displayName fv
      \<and> collectionDisplayName saved = cv_displayName cv"
    by (simp add: t n_def newFlowRun_def)
  have here: "fst (start e p w) =
      (case flowRunSideEffects_start e saved (sp_payload p) of
         Some rejection \<Rightarrow> Inl (SideEffectRejected rejection)
       | None \<Rightarrow> Inr saved)"
    unfolding saved_def n_def by (simp add: start_resolved[OF assms] Let_def)
  have "r = saved" if "fst (start e p w) = Inr r" for r
    using that unfolding here by (simp split: option.splits)
  moreover have "\<exists>r. fst (start e p w) = Inr r"
    if "\<forall>r. flowRunSideEffects_start e r (sp_payload p) = None"
    using that unfolding here by simp
  ultimately show ?thesis using fields by blast
qed

theorem start_returned_run_witness:
  "fst (start scenario_env (scenario_params ''fv1'' ''cv1'') empty_world) = Inr scenario_run
   \<and> status scenario_run = RUNNING \<and> startTime scenario_run = Some 1000
   \<and> finishTime scenario_run = None \<and> logsFileId scenario_run = None
   \<and> flowRunId scenario_run = ''run1'' \<and> projectId scenario_run = ''p1''
   \<and> collectionId scenario_run = ''c1'' \<and> flowId scenario_run = ''f1''"
  using start_returned_run [OF scenario_resolves, of empty_world]
  by (simp add: scenario_start scenario_run_def)

section \<open>Properties of finish\<close>

lemma scenario_getOne: "getOne ''run1'' [scenario_run] = Some scenario_run"
  by (simp add: getOne_def repo_findOneBy_def scenario_run_def)

text \<open>
  Claim C8, as the code has it. When a run with the id exists and the id is not the
  empty string, \<open>finish\<close> returns it with the status and the logs file reference as
  given and the finish time set to the clock's reading, and that is the row the table
  then holds; the finish time is at or after the start time when the clock's reading
  is. When no run has the id and the id is not the empty string, \<open>finish\<close> returns
  \<open>null\<close> without throwing and the table is unchanged. With the empty string as id the
  update is rejected: \<open>finish\<close> throws, and the table is unchanged.
\<close>

theorem finish_updates_or_not_found:
  "(\<forall>r. i \<noteq> [] \<and> getOne i rows = Some r \<longrightarrow>
      fst (finish t i st lf rows) =
        Inr (Some (r\<lparr>logsFileId := Some lf, status := st, finishTime := Some t\<rparr>))
    \<and> Inr (getOne i (snd (finish t i st lf rows))) = fst (finish t i st lf rows)
    \<and> (\<forall>t0. startTime r = Some t0 \<and> t0 \<le> t \<longrightarrow>
          (\<exists>r' t1. fst (finish t i st lf rows) = Inr (Some r') \<and> startTime r' = Some t0
             \<and> finishTime r' = Some t1 \<and> t0 \<le> t1)))
   \<and> (i \<noteq> [] \<and> getOne i rows = None \<longrightarrow> finish t i st lf rows = (Inr None, rows))
   \<and> finish t [] st lf rows =
       (Inl (TypeORMError ''Empty criteria(s) are not allowed for the update method.''), rows)"
proof (intro conjI allI impI)
  fix r assume a: "i \<noteq> [] \<and> getOne i rows = Some r"
  then have r: "getOne i rows = Some r" and ne: "i \<noteq> []" by simp_all
  from r have idr: "flowRunId r = i"
    by (auto simp: getOne_def repo_findOneBy_def dest: find_Some_iff[THEN iffD1])
  show ret: "fst (finish t i st lf rows) =
        Inr (Some (r\<lparr>logsFileId := Some lf, status := st, finishTime := Some t\<rparr>))"
    using r idr by (simp add: finish_nonempty_id[OF ne] getOne_def update_rows_found)
  show "Inr (getOne i (snd (finish t i st lf rows))) = fst (finish t i st lf rows)"
    by (simp add: finish_nonempty_id[OF ne])
  show "\<exists>r' t1. fst (finish t i st lf rows) = Inr (Some r') \<and> startTime r' = Some t0
             \<and> finishTime r' = Some t1 \<and> t0 \<le> t1"
    if "startTime r = Some t0 \<and> t0 \<le> t" for t0
    using that by (simp add: ret)
next
  assume "i \<noteq> [] \<and> getOne i rows = None"
  then show "finish t i st lf rows = (Inr None, rows)"
    by (simp add: finish_nonempty_id getOne_def update_rows_missing)
next
  show "finish t [] st lf rows =
       (Inl (TypeORMError ''Empty criteria(s) are not allowed for the update method.''), rows)"
    by (rule finish_empty_id)
qed

theorem finish_updates_or_not_found_witness:
  "''run1'' \<noteq> [] \<and> getOne ''run1'' [scenario_run] = Some scenario_run
   \<and> startTime scenario_run = Some 1000 \<and> (1000::nat) \<le> 2000
   \<and> fst (finish 2000 ''run1'' SUCCEEDED ''L1'' [scenario_run]) =
       Inr (Some (scenario_run\<lparr>logsFileId := Some ''L1'', status := SUCCEEDED,
                    finishTime := Some 2000\<rparr>))
   \<and> (\<exists>r' t1. fst (finish 2000 ''run1'' SUCCEEDED ''L1'' [scenario_run]) = Inr (Some r')
         \<and> startTime r' = Some 1000 \<and> finishTime r' = Some t1 \<and> 1000 \<le> t1)
   \<and> ''run2'' \<noteq> [] \<and> getOne ''run2'' [scenario_run] = None
   \<and> finish 2000 ''run2'' SUCCEEDED ''L1'' [scenario_run] = (Inr None, [scenario_run])"
proof -
  have s: "startTime scenario_run = Some 1000" by (simp add: scenario_run_def)
  have m: "getOne ''run2'' [scenario_run] = None"
    by (simp add: getOne_def repo_findOneBy_def scenario_run_def)
  show ?thesis
    using finish_updates_or_not_found [of "''run1''" "[scenario_run]" 2000 SUCCEEDED "''L1''"]
      finish_updates_or_not_found [of "''run2''" "[scenario_run]" 2000 SUCCEEDED "''L1''"]
      scenario_getOne s m
    by simp
qed

text \<open>
  The claim as stated fails at two inputs. Where the clock reads less than the recorded
  start time, the finish time is before the start time: \<open>finish\<close> does not compare the
  two. And with the empty string as id, an id no run has, \<open>finish\<close> throws instead of
  returning \<open>null\<close>.
\<close>

theorem finish_before_start_counterexample:
  "fst (finish 500 ''run1'' SUCCEEDED ''L1'' [scenario_run]) =
     Inr (Some (scenario_run\<lparr>logsFileId := Some ''L1'', status := SUCCEEDED,
                  finishTime := Some 500\<rparr>))
   \<and> startTime scenario_run = Some 1000
   \<and> (500 :: timestamp) < 1000
   \<and> getOne [] [scenario_run] = None
   \<and> fst (finish 2000 [] SUCCEEDED ''L1'' [scenario_run]) =
       Inl (TypeORMError ''Empty criteria(s) are not allowed for the update method.'')"
  by (simp add: finish_def repo_update_def update_rows_def getOne_def repo_findOneBy_def
      scenario_run_def)

text \<open>
  Claim C9, as the code has it. Two calls of \<open>finish\<close> with the same arguments leave
  the table as the second call alone would: the status and the logs file reference of
  one call, and the finish time of the second call.
\<close>

theorem finish_twice_is_last_finish:
  "finish t2 i st lf (snd (finish t1 i st lf rows)) = finish t2 i st lf rows"
proof (cases "i = []")
  case True
  then show ?thesis by (simp add: finish_empty_id)
next
  case False
  then show ?thesis by (simp add: finish_nonempty_id update_rows_twice)
qed

text \<open>
  The claim as stated fails where the clock has moved between the two calls: the finish
  time after two calls is not the finish time after one.
\<close>

theorem finish_twice_counterexample:
  "snd (finish 2000 ''run1'' SUCCEEDED ''L1''
          (snd (finish 1500 ''run1'' SUCCEEDED ''L1'' [scenario_run])))
     = [scenario_run\<lparr>logsFileId := Some ''L1'', status := SUCCEEDED, finishTime := Some 2000\<rparr>]
   \<and> snd (finish 1500 ''run1'' SUCCEEDED ''L1'' [scenario_run])
     = [scenario_run\<lparr>logsFileId := Some ''L1'', status := SUCCEEDED, finishTime := Some 1500\<rparr>]
   \<and> snd (finish 2000 ''run1'' SUCCEEDED ''L1''
          (snd (finish 1500 ''run1'' SUCCEEDED ''L1'' [scenario_run])))
     \<noteq> snd (finish 1500 ''run1'' SUCCEEDED ''L1'' [scenario_run])"
  by (simp add: finish_def repo_update_def update_rows_def scenario_run_def)

text \<open>
  Claim C10. When a run with the id exists (the id is then not the empty string, which
  the update rejects), \<open>finish\<close> writes the given status, the given logs file reference
  and the clock's reading as finish time, whatever the run's current status and
  whatever the status given, terminal or not.
\<close>

theorem finish_overwrites_unconditionally:
  "i \<noteq> [] \<Longrightarrow> getOne i rows = Some r \<Longrightarrow>
   \<exists>r'. fst (finish t i st lf rows) = Inr (Some r')
      \<and> getOne i (snd (finish t i st lf rows)) = Some r'
      \<and> status r' = st \<and> logsFileId r' = Some lf \<and> finishTime r' = Some t"
proof -
  assume ne: "i \<noteq> []" and r: "getOne i rows = Some r"
  then have idr: "flowRunId r = i"
    by (auto simp: getOne_def repo_findOneBy_def dest: find_Some_iff[THEN iffD1])
  have "getOne i (update_rows i
          (\<lambda>r. r\<lparr>logsFileId := Some lf, status := st, finishTime := Some t\<rparr>) rows) =
        Some (r\<lparr>logsFileId := Some lf, status := st, finishTime := Some t\<rparr>)"
    using r idr by (simp add: getOne_def update_rows_found)
  then show ?thesis by (simp add: finish_nonempty_id[OF ne])
qed

theorem finish_overwrites_unconditionally_witness:
  "''run1'' \<noteq> []
   \<and> getOne ''run1''
      [scenario_run\<lparr>logsFileId := Some ''L1'', status := SUCCEEDED, finishTime := Some 1500\<rparr>]
     = Some (scenario_run\<lparr>logsFileId := Some ''L1'', status := SUCCEEDED,
               finishTime := Some 1500\<rparr>)
   \<and> (\<exists>r'. fst (finish 2000 ''run1'' RUNNING ''L2''
          [scenario_run\<lparr>logsFileId := Some ''L1'', status := SUCCEEDED,
             finishTime := Some 1500\<rparr>]) = Inr (Some r')
      \<and> getOne ''run1'' (snd (finish 2000 ''run1'' RUNNING ''L2''
          [scenario_run\<lparr>logsFileId := Some ''L1'', status := SUCCEEDED,
             finishTime := Some 1500\<rparr>])) = Some r'
      \<and> status r' = RUNNING \<and> logsFileId r' = Some ''L2'' \<and> finishTime r' = Some 2000)"
proof -
  have n: "''run1'' \<noteq> []" by simp
  have g: "getOne ''run1''
      [scenario_run\<lparr>logsFileId := Some ''L1'', status := SUCCEEDED, finishTime := Some 1500\<rparr>]
     = Some (scenario_run\<lparr>logsFileId := Some ''L1'', status := SUCCEEDED,
               finishTime := Some 1500\<rparr>)"
    by (simp add: getOne_def repo_findOneBy_def scenario_run_def)
  show ?thesis
    using n g finish_overwrites_unconditionally [OF n g, of 2000 RUNNING "''L2''"] by blast
qed

section \<open>Properties of the run status checker\<close>

text \<open>
  Once everything is unsubscribed nothing happens any more, and the actions of a
  sequence of deliveries are those of its parts.
\<close>

lemma unsubscribed_step: "checker_step runId unsubscribed ev = (unsubscribed, [])"
  by (cases ev) (simp_all add: unsubscribed_def)

lemma unsubscribed_run: "checker_run runId unsubscribed evs = (unsubscribed, [])"
  by (induction evs) (simp_all add: unsubscribed_step)


lemma tap_takeWhile_cases:
  "tap_takeWhile s r =
     (if status r = RUNNING then (s, [Emitted r])
      else if status r = PAUSED then (s, [SetRun r, Emitted r])
      else (unsubscribed, [SetRun r]))"
  by (simp add: tap_takeWhile_def)






lemma step_SetRun_not_running:
  "SetRun r \<in> set (snd (checker_step runId s ev)) \<Longrightarrow> status r \<noteq> RUNNING"
  by (cases ev) (auto simp: tap_takeWhile_cases split: option.splits if_splits)

lemma run_SetRun_not_running:
  "SetRun r \<in> set (snd (checker_run runId s evs)) \<Longrightarrow> status r \<noteq> RUNNING"
proof (induction evs arbitrary: s)
  case Nil then show ?case by simp
next
  case (Cons ev evs)
  then show ?case
    using step_SetRun_not_running[of r runId s ev]
    by (auto simp: split_beta)
qed

lemma step_LoadStateLogs_iff:
  "LoadStateLogs f \<in> set (snd (checker_step runId s ev)) \<longleftrightarrow>
     (\<exists>r. ev = GetResponded r \<and> getPending s \<and> status r \<noteq> RUNNING \<and> logsFileId r = Some f)"
  by (cases ev) (auto simp: tap_takeWhile_cases split: option.splits if_splits)

text \<open>
  Ticks with no response in between: each tick issues a poll, and one request is in
  flight afterwards.
\<close>

lemma checker_run_ticks:
  "ticking s \<Longrightarrow>
   checker_run runId s (replicate n IntervalTick @ evs) =
     (fst (checker_run runId (if n = 0 then s else s\<lparr>getPending := True\<rparr>) evs),
      replicate n (InstanceRunGet runId)
        @ snd (checker_run runId (if n = 0 then s else s\<lparr>getPending := True\<rparr>) evs))"
proof (induction n arbitrary: s)
  case 0
  then show ?case by simp
next
  case (Suc n)
  have "ticking (s\<lparr>getPending := True\<rparr>)" using Suc.prems by simp
  from Suc.IH[OF this] Suc.prems show ?case
    by (cases n) (simp_all add: split_beta)
qed

lemma running_response:
  "status r = RUNNING \<Longrightarrow>
   checker_run runId (subscribed\<lparr>getPending := True\<rparr>) (GetResponded r # evs) =
     (fst (checker_run runId subscribed evs), Emitted r # snd (checker_run runId subscribed evs))"
  by (simp add: tap_takeWhile_cases subscribed_def split_beta)

lemma succeeded_response:
  "status r = SUCCEEDED \<Longrightarrow> logsFileId r = Some f \<Longrightarrow>
   checker_run runId (subscribed\<lparr>getPending := True\<rparr>) (GetResponded r # evs) =
     (fst (checker_run runId (subscribed\<lparr>logsPending := Some r\<rparr>) evs),
      LoadStateLogs f # snd (checker_run runId (subscribed\<lparr>logsPending := Some r\<rparr>) evs))"
  by (simp add: subscribed_def split_beta)

lemma succeeded_logs:
  "status r = SUCCEEDED \<Longrightarrow> logsPending s = Some r \<Longrightarrow>
   checker_run runId s (LogsLoaded st # evs) = (unsubscribed, [SetRun (r\<lparr>state := Some st\<rparr>)])"
  by (simp add: tap_takeWhile_cases split_beta unsubscribed_run)

lemma scenario_trace:
  assumes "status r1 = RUNNING" "status r2 = RUNNING" "status r3 = SUCCEEDED"
    "logsFileId r3 = Some f"
  shows "checker_run runId subscribed
      (replicate (Suc n1) IntervalTick @ GetResponded r1
       # replicate (Suc n2) IntervalTick @ GetResponded r2
       # replicate (Suc n3) IntervalTick @ GetResponded r3
       # replicate n4 IntervalTick @ LogsLoaded st # evs) =
     (unsubscribed,
      replicate (Suc n1) (InstanceRunGet runId) @ Emitted r1
      # replicate (Suc n2) (InstanceRunGet runId) @ Emitted r2
      # replicate (Suc n3) (InstanceRunGet runId) @ LoadStateLogs f
      # replicate n4 (InstanceRunGet runId) @ [SetRun (r3\<lparr>state := Some st\<rparr>)])"
proof -
  have k: "ticking subscribed" "ticking (subscribed\<lparr>logsPending := Some r3\<rparr>)"
    by (simp_all add: subscribed_def)
  have l: "checker_run runId (subscribed\<lparr>logsPending := Some r3\<rparr>)
             (replicate n4 IntervalTick @ LogsLoaded st # evs) =
           (unsubscribed,
            replicate n4 (InstanceRunGet runId) @ [SetRun (r3\<lparr>state := Some st\<rparr>)])"
  proof -
    have "logsPending (if n4 = 0 then subscribed\<lparr>logsPending := Some r3\<rparr>
            else subscribed\<lparr>logsPending := Some r3, getPending := True\<rparr>) = Some r3"
      by simp
    from succeeded_logs[OF assms(3) this] show ?thesis
      unfolding checker_run_ticks[OF k(2)]
      by (simp del: checker_run.simps)
  qed
  have 3: "checker_run runId subscribed
             (replicate (Suc n3) IntervalTick @ GetResponded r3
              # replicate n4 IntervalTick @ LogsLoaded st # evs) =
           (unsubscribed,
            replicate (Suc n3) (InstanceRunGet runId) @ LoadStateLogs f
            # replicate n4 (InstanceRunGet runId) @ [SetRun (r3\<lparr>state := Some st\<rparr>)])"
    unfolding checker_run_ticks[OF k(1)]
    by (simp add: succeeded_response[OF assms(3,4)] l del: replicate_Suc checker_run.simps)
  have 2: "checker_run runId subscribed
             (replicate (Suc n2) IntervalTick @ GetResponded r2
              # replicate (Suc n3) IntervalTick @ GetResponded r3
              # replicate n4 IntervalTick @ LogsLoaded st # evs) =
           (unsubscribed,
            replicate (Suc n2) (InstanceRunGet runId) @ Emitted r2
            # replicate (Suc n3) (InstanceRunGet runId) @ LoadStateLogs f
            # replicate n4 (InstanceRunGet runId) @ [SetRun (r3\<lparr>state := Some st\<rparr>)])"
    unfolding checker_run_ticks[OF k(1)]
    by (simp add: running_response[OF assms(2)] 3 del: replicate_Suc checker_run.simps)
  show ?thesis
    unfolding checker_run_ticks[OF k(1)]
    by (simp add: running_response[OF assms(1)] 2 del: replicate_Suc checker_run.simps)
qed

lemma scenario_statuses:
  "status scenario_run = RUNNING" "logsFileId scenario_run = None"
  "status paused_run = PAUSED" "logsFileId paused_run = None"
  "status failed_run = FAILED" "logsFileId failed_run = None"
  "status succeeded_run = SUCCEEDED" "logsFileId succeeded_run = Some ''L1''"
  by (simp_all add: scenario_run_def paused_run_def failed_run_def succeeded_run_def)







text \<open>
  Claim C5, as the code has it. Every run dispatched with \<open>setRun\<close> has a status other
  than \<open>RUNNING\<close>. A fetched run whose status is not \<open>RUNNING\<close>, \<open>PAUSED\<close> included, is
  dispatched: at once when it carries no logs file reference, and with the logs merged
  when they have loaded.
\<close>

theorem checker_dispatches_unless_running:
  "(\<forall>r. SetRun r \<in> set (setStatusChecker runId evs) \<longrightarrow> status r \<noteq> RUNNING)
   \<and> (getPending s \<and> status r \<noteq> RUNNING \<and> logsFileId r = None \<longrightarrow>
        SetRun r \<in> set (snd (checker_step runId s (GetResponded r))))
   \<and> (logsPending s = Some r \<and> status r \<noteq> RUNNING \<longrightarrow>
        SetRun (r\<lparr>state := Some st\<rparr>) \<in> set (snd (checker_step runId s (LogsLoaded st))))"
proof (intro conjI)
  show "\<forall>r. SetRun r \<in> set (setStatusChecker runId evs) \<longrightarrow> status r \<noteq> RUNNING"
    unfolding setStatusChecker_def using run_SetRun_not_running by blast
  show "getPending s \<and> status r \<noteq> RUNNING \<and> logsFileId r = None \<longrightarrow>
        SetRun r \<in> set (snd (checker_step runId s (GetResponded r)))"
    by (simp add: tap_takeWhile_cases)
  show "logsPending s = Some r \<and> status r \<noteq> RUNNING \<longrightarrow>
        SetRun (r\<lparr>state := Some st\<rparr>) \<in> set (snd (checker_step runId s (LogsLoaded st)))"
    by (simp add: tap_takeWhile_cases)
qed

theorem checker_dispatches_unless_running_witness:
  "SetRun paused_run \<in> set (setStatusChecker ''run1'' [IntervalTick, GetResponded paused_run])
   \<and> status paused_run \<noteq> RUNNING
   \<and> getPending (subscribed\<lparr>getPending := True\<rparr>) \<and> logsFileId paused_run = None
   \<and> SetRun paused_run
       \<in> set (snd (checker_step ''run1'' (subscribed\<lparr>getPending := True\<rparr>)
                 (GetResponded paused_run)))
   \<and> logsPending (subscribed\<lparr>logsPending := Some succeeded_run\<rparr>) = Some succeeded_run
   \<and> status succeeded_run \<noteq> RUNNING
   \<and> SetRun (succeeded_run\<lparr>state := Some ''steps''\<rparr>)
       \<in> set (snd (checker_step ''run1'' (subscribed\<lparr>logsPending := Some succeeded_run\<rparr>)
                 (LogsLoaded ''steps'')))"
proof -
  have t: "SetRun paused_run
      \<in> set (setStatusChecker ''run1'' [IntervalTick, GetResponded paused_run])"
    by (simp add: setStatusChecker_def subscribed_def tap_takeWhile_cases scenario_statuses)
  show ?thesis
    using t scenario_statuses
      checker_dispatches_unless_running [where runId = "''run1''"
        and evs = "[IntervalTick, GetResponded paused_run]"
        and s = "subscribed\<lparr>getPending := True\<rparr>" and r = paused_run]
      checker_dispatches_unless_running [where runId = "''run1''"
        and s = "subscribed\<lparr>logsPending := Some succeeded_run\<rparr>" and r = succeeded_run
        and st = "''steps''"]
    by simp
qed

text \<open>
  The claim as stated fails for \<open>PAUSED\<close>: a fetched run with the non-terminal status
  \<open>PAUSED\<close> is dispatched.
\<close>

theorem checker_dispatches_paused_counterexample:
  "SetRun paused_run \<in> set (setStatusChecker ''run1'' [IntervalTick, GetResponded paused_run])
   \<and> status paused_run = PAUSED
   \<and> \<not> terminal (status paused_run)"
  by (simp add: setStatusChecker_def subscribed_def tap_takeWhile_cases scenario_statuses
      terminal_def)

text \<open>
  Claim C6, as the code has it. The checker requests the logs exactly when a poll
  result arrives whose status is not \<open>RUNNING\<close> and whose logs file reference is not
  \<open>null\<close>, for that reference; when the logs arrive, the value passed on is the run
  with the logs merged in as its state; any other poll result is passed on as fetched.
  When the poll results are \<open>RUNNING\<close>, \<open>RUNNING\<close>, then \<open>SUCCEEDED\<close> with a logs file
  reference, and the logs load before another poll result arrives, the checker
  requests the logs once, dispatches the run with the logs merged, and does nothing
  more whatever is delivered afterwards; the polls it has issued are one for each tick
  up to the arrival of the logs.
\<close>

theorem checker_loads_logs:
  "(LoadStateLogs f \<in> set (snd (checker_step runId s ev)) \<longleftrightarrow>
      (\<exists>r. ev = GetResponded r \<and> getPending s \<and> status r \<noteq> RUNNING \<and> logsFileId r = Some f))
   \<and> (getPending s \<and> status r \<noteq> RUNNING \<and> logsFileId r = Some f \<longrightarrow>
        snd (checker_run runId s [GetResponded r, LogsLoaded st]) =
          LoadStateLogs f
            # snd (tap_takeWhile (s\<lparr>getPending := False, logsPending := None\<rparr>)
                     (r\<lparr>state := Some st\<rparr>)))
   \<and> (getPending s \<and> (status r = RUNNING \<or> logsFileId r = None) \<longrightarrow>
        checker_step runId s (GetResponded r) =
          tap_takeWhile (s\<lparr>getPending := False, logsPending := None\<rparr>) r)
   \<and> (status r1 = RUNNING \<and> status r2 = RUNNING \<and> status r3 = SUCCEEDED
        \<and> logsFileId r3 = Some f \<longrightarrow>
        setStatusChecker runId
          (replicate (Suc n1) IntervalTick @ GetResponded r1
           # replicate (Suc n2) IntervalTick @ GetResponded r2
           # replicate (Suc n3) IntervalTick @ GetResponded r3
           # replicate n4 IntervalTick @ LogsLoaded st # evs) =
          replicate (Suc n1) (InstanceRunGet runId) @ Emitted r1
          # replicate (Suc n2) (InstanceRunGet runId) @ Emitted r2
          # replicate (Suc n3) (InstanceRunGet runId) @ LoadStateLogs f
          # replicate n4 (InstanceRunGet runId) @ [SetRun (r3\<lparr>state := Some st\<rparr>)])"
proof (intro conjI)
  show "LoadStateLogs f \<in> set (snd (checker_step runId s ev)) \<longleftrightarrow>
      (\<exists>r. ev = GetResponded r \<and> getPending s \<and> status r \<noteq> RUNNING \<and> logsFileId r = Some f)"
    by (rule step_LoadStateLogs_iff)
  show "getPending s \<and> status r \<noteq> RUNNING \<and> logsFileId r = Some f \<longrightarrow>
        snd (checker_run runId s [GetResponded r, LogsLoaded st]) =
          LoadStateLogs f
            # snd (tap_takeWhile (s\<lparr>getPending := False, logsPending := None\<rparr>)
                     (r\<lparr>state := Some st\<rparr>))"
    by (simp add: split_beta)
  show "getPending s \<and> (status r = RUNNING \<or> logsFileId r = None) \<longrightarrow>
        checker_step runId s (GetResponded r) =
          tap_takeWhile (s\<lparr>getPending := False, logsPending := None\<rparr>) r"
    by (auto split: option.splits)
  show "status r1 = RUNNING \<and> status r2 = RUNNING \<and> status r3 = SUCCEEDED
        \<and> logsFileId r3 = Some f \<longrightarrow>
        setStatusChecker runId
          (replicate (Suc n1) IntervalTick @ GetResponded r1
           # replicate (Suc n2) IntervalTick @ GetResponded r2
           # replicate (Suc n3) IntervalTick @ GetResponded r3
           # replicate n4 IntervalTick @ LogsLoaded st # evs) =
          replicate (Suc n1) (InstanceRunGet runId) @ Emitted r1
          # replicate (Suc n2) (InstanceRunGet runId) @ Emitted r2
          # replicate (Suc n3) (InstanceRunGet runId) @ LoadStateLogs f
          # replicate n4 (InstanceRunGet runId) @ [SetRun (r3\<lparr>state := Some st\<rparr>)]"
  proof
    assume h: "status r1 = RUNNING \<and> status r2 = RUNNING \<and> status r3 = SUCCEEDED
        \<and> logsFileId r3 = Some f"
    then have "checker_run runId subscribed
      (replicate (Suc n1) IntervalTick @ GetResponded r1
       # replicate (Suc n2) IntervalTick @ GetResponded r2
       # replicate (Suc n3) IntervalTick @ GetResponded r3
       # replicate n4 IntervalTick @ LogsLoaded st # evs) =
     (unsubscribed,
      replicate (Suc n1) (InstanceRunGet runId) @ Emitted r1
      # replicate (Suc n2) (InstanceRunGet runId) @ Emitted r2
      # replicate (Suc n3) (InstanceRunGet runId) @ LoadStateLogs f
      # replicate n4 (InstanceRunGet runId) @ [SetRun (r3\<lparr>state := Some st\<rparr>)])"
      by (intro scenario_trace) simp_all
    then show "setStatusChecker runId
          (replicate (Suc n1) IntervalTick @ GetResponded r1
           # replicate (Suc n2) IntervalTick @ GetResponded r2
           # replicate (Suc n3) IntervalTick @ GetResponded r3
           # replicate n4 IntervalTick @ LogsLoaded st # evs) =
          replicate (Suc n1) (InstanceRunGet runId) @ Emitted r1
          # replicate (Suc n2) (InstanceRunGet runId) @ Emitted r2
          # replicate (Suc n3) (InstanceRunGet runId) @ LoadStateLogs f
          # replicate n4 (InstanceRunGet runId) @ [SetRun (r3\<lparr>state := Some st\<rparr>)]"
      unfolding setStatusChecker_def by (simp only: snd_conv)
  qed
qed

theorem checker_loads_logs_witness:
  "getPending (subscribed\<lparr>getPending := True\<rparr>)
   \<and> status succeeded_run \<noteq> RUNNING \<and> logsFileId succeeded_run = Some ''L1''
   \<and> LoadStateLogs ''L1''
       \<in> set (snd (checker_step ''run1'' (subscribed\<lparr>getPending := True\<rparr>)
                 (GetResponded succeeded_run)))
   \<and> snd (checker_run ''run1'' (subscribed\<lparr>getPending := True\<rparr>)
            [GetResponded succeeded_run, LogsLoaded ''steps'']) =
       [LoadStateLogs ''L1'', SetRun (succeeded_run\<lparr>state := Some ''steps''\<rparr>)]
   \<and> status scenario_run = RUNNING
   \<and> checker_step ''run1'' (subscribed\<lparr>getPending := True\<rparr>) (GetResponded scenario_run) =
       (subscribed, [Emitted scenario_run])
   \<and> setStatusChecker ''run1''
        [IntervalTick, GetResponded scenario_run, IntervalTick, GetResponded scenario_run,
         IntervalTick, GetResponded succeeded_run, IntervalTick, LogsLoaded ''steps'',
         IntervalTick, GetResponded succeeded_run] =
       [InstanceRunGet ''run1'', Emitted scenario_run, InstanceRunGet ''run1'',
        Emitted scenario_run, InstanceRunGet ''run1'', LoadStateLogs ''L1'',
        InstanceRunGet ''run1'', SetRun (succeeded_run\<lparr>state := Some ''steps''\<rparr>)]"
proof -
  have g: "getPending (subscribed\<lparr>getPending := True\<rparr>)" by simp
  have m: "snd (tap_takeWhile (subscribed\<lparr>getPending := True, getPending := False,
                logsPending := None\<rparr>) (succeeded_run\<lparr>state := Some ''steps''\<rparr>)) =
           [SetRun (succeeded_run\<lparr>state := Some ''steps''\<rparr>)]"
    by (simp add: tap_takeWhile_cases scenario_statuses)
  have n: "tap_takeWhile (subscribed\<lparr>getPending := True, getPending := False,
                logsPending := None\<rparr>) scenario_run = (subscribed, [Emitted scenario_run])"
    by (simp add: tap_takeWhile_cases scenario_statuses subscribed_def)
  show ?thesis
    using g m n scenario_statuses
      checker_loads_logs [where runId = "''run1''" and s = "subscribed\<lparr>getPending := True\<rparr>"
        and ev = "GetResponded succeeded_run" and f = "''L1''" and r = succeeded_run
        and st = "''steps''" and ?r1.0 = scenario_run and ?r2.0 = scenario_run
        and ?r3.0 = succeeded_run and ?n1.0 = 0 and ?n2.0 = 0 and ?n3.0 = 0 and ?n4.0 = 1
        and evs = "[IntervalTick, GetResponded succeeded_run]"]
      checker_loads_logs [where runId = "''run1''" and s = "subscribed\<lparr>getPending := True\<rparr>"
        and r = scenario_run]
    by simp
qed

text \<open>
  The claim as stated fails where a fourth poll result arrives before the logs have
  loaded: the run is \<open>SUCCEEDED\<close> with a logs file reference on the third poll, the
  checker polls again, and it requests the logs a second time.
\<close>

theorem checker_loads_logs_twice_counterexample:
  "setStatusChecker ''run1''
     [IntervalTick, GetResponded scenario_run, IntervalTick, GetResponded scenario_run,
      IntervalTick, GetResponded succeeded_run, IntervalTick, GetResponded succeeded_run,
      LogsLoaded ''steps''] =
     [InstanceRunGet ''run1'', Emitted scenario_run, InstanceRunGet ''run1'',
      Emitted scenario_run, InstanceRunGet ''run1'', LoadStateLogs ''L1'',
      InstanceRunGet ''run1'', LoadStateLogs ''L1'',
      SetRun (succeeded_run\<lparr>state := Some ''steps''\<rparr>)]
   \<and> status scenario_run = RUNNING
   \<and> status succeeded_run = SUCCEEDED
   \<and> logsFileId succeeded_run = Some ''L1''"
  by (simp add: setStatusChecker_def subscribed_def tap_takeWhile_cases scenario_statuses
      unsubscribed_def)

section \<open>Properties of list\<close>







































end
